theory Spec2Isabelle
  imports Complex_Main
begin

section \<open>The ABC loss of \<^verbatim>\<open>isolating_factors/mnist.ipynb\<close>\<close>

text \<open>
  The notebook cell "The heart of ABC: helper functions for computing the loss" defines
  \<^verbatim>\<open>pairwise_l2_distance\<close>, \<^verbatim>\<open>pairwise_l1_distance\<close>, \<^verbatim>\<open>pairwise_linf_distance\<close>,
  \<^verbatim>\<open>get_scaled_similarity\<close> and \<^verbatim>\<open>align_pair_of_sequences\<close> on rank-2 TensorFlow tensors.

  Numbers. The code computes in float32. Here a tensor entry is the real number that the
  float32 entry approximates: rounding, and with it the order in which TensorFlow adds up a sum,
  is not modelled, so that an entry of the model and the entry that the code returns differ by
  the rounding error of the computation. What is modelled is whether the entries are finite
  floats at all. The field \<open>finite_vals\<close> of a tensor says that no inf and no NaN has arisen on
  the way to it. It becomes \<open>False\<close> when an operation divides by zero, takes the square root of
  a negative number or the maximum of nothing, when it overflows (its result, or a product that
  it adds up, is larger in magnitude than the largest float32), and when the squares of a row
  that is to be normalised all round to zero. When it is \<open>False\<close> the entries mean nothing.
  A scalar is a \<open>real option\<close> with \<open>None\<close> for inf or NaN.

  Shapes. A tensor carries its shape, as in TensorFlow. The shape checks that TensorFlow makes
  (equal inner dimensions in \<^verbatim>\<open>tf.matmul\<close>, broadcasting in a subtraction) are not modelled: the
  definitions read both embeddings over the columns of the first, and say what the code
  computes when the two embeddings have the same number of columns.

  Exceptions. A Python exception is the left summand of the result.
\<close>

subsection \<open>Tensors, errors, globals\<close>

record tensor =
  nrows :: nat
  ncols :: nat
  entry :: "nat \<Rightarrow> nat \<Rightarrow> real"
  finite_vals :: bool

datatype error = ValueError string | NameError string | InvalidArgumentError string

text \<open>The largest float32, and the numbers that do not overflow.\<close>

definition max_float32 :: real where
  "max_float32 = (2 - 1 / 2 ^ 23) * 2 ^ 127"

definition in_range :: "real \<Rightarrow> bool" where
  "in_range x \<longleftrightarrow> \<bar>x\<bar> \<le> max_float32"

text \<open>A sum of products, as \<^verbatim>\<open>tf.matmul\<close> forms it, stays finite: no product overflows and the
  sum does not.\<close>

definition dot_in_range :: "(nat \<Rightarrow> real) \<Rightarrow> (nat \<Rightarrow> real) \<Rightarrow> nat \<Rightarrow> bool" where
  "dot_in_range u v d \<longleftrightarrow> (\<forall>k<d. in_range (u k * v k)) \<and> in_range (\<Sum>k<d. u k * v k)"

text \<open>
  The functions of the cell read one global name, \<^verbatim>\<open>eps\<close>. The global namespace is a dictionary;
  the model keeps its numeric entries. \<open>notebook_globals\<close> has every numeric name that the
  notebook assigns at top level, in any cell: there is no assignment to \<^verbatim>\<open>eps\<close> in the notebook,
  and none of its imports (\<^verbatim>\<open>tf\<close>, \<^verbatim>\<open>np\<close>, \<^verbatim>\<open>plt\<close>, \<^verbatim>\<open>tfds\<close>, \<^verbatim>\<open>OffsetImage\<close>, \<^verbatim>\<open>AnnotationBbox\<close>,
  \<^verbatim>\<open>PCA\<close>, \<^verbatim>\<open>tfkl\<close>) binds it.
\<close>

type_synonym globals = "string \<rightharpoonup> real"

definition notebook_globals :: globals where
  "notebook_globals =
     [''stack_size'' \<mapsto> 64, ''num_latent_dims'' \<mapsto> 8, ''test_digit'' \<mapsto> 9,
      ''lr'' \<mapsto> 1 / 10000, ''num_steps'' \<mapsto> 500, ''temperature'' \<mapsto> 1,
      ''imgs_to_plot'' \<mapsto> 200, ''output_loss_every'' \<mapsto> 100, ''zoom_factor'' \<mapsto> 1,
      ''num_images_to_use'' \<mapsto> 512]"

subsection \<open>The TensorFlow operations that the cell calls\<close>

text \<open>\<^verbatim>\<open>tf.matmul(a, b, transpose_b=...)\<close>.\<close>

definition matmul :: "tensor \<Rightarrow> tensor \<Rightarrow> bool \<Rightarrow> tensor" where
  "matmul a b transpose_b =
     (if transpose_b
      then \<lparr>nrows = nrows a, ncols = nrows b,
            entry = (\<lambda>i j. \<Sum>k<ncols a. entry a i k * entry b j k),
            finite_vals = (finite_vals a \<and> finite_vals b \<and>
              (\<forall>i<nrows a. \<forall>j<nrows b. dot_in_range (entry a i) (entry b j) (ncols a)))\<rparr>
      else \<lparr>nrows = nrows a, ncols = ncols b,
            entry = (\<lambda>i j. \<Sum>k<ncols a. entry a i k * entry b k j),
            finite_vals = (finite_vals a \<and> finite_vals b \<and>
              (\<forall>i<nrows a. \<forall>j<ncols b. dot_in_range (entry a i) (\<lambda>k. entry b k j) (ncols a)))\<rparr>)"

text \<open>\<^verbatim>\<open>c * t\<close>, \<^verbatim>\<open>t + c\<close> and \<^verbatim>\<open>t / c\<close> with a scalar \<^verbatim>\<open>c\<close>; \<^verbatim>\<open>tf.sqrt\<close>. Dividing an entry by
  zero gives inf or NaN, dividing it by a number that is small enough overflows, and the
  square root of a negative entry is NaN.\<close>

definition scalar_mul :: "real \<Rightarrow> tensor \<Rightarrow> tensor" where
  "scalar_mul c t =
     t\<lparr>entry := (\<lambda>i j. c * entry t i j),
       finite_vals := (finite_vals t \<and> (\<forall>i<nrows t. \<forall>j<ncols t. in_range (c * entry t i j)))\<rparr>"

definition add_scalar :: "tensor \<Rightarrow> real \<Rightarrow> tensor" where
  "add_scalar t c =
     t\<lparr>entry := (\<lambda>i j. entry t i j + c),
       finite_vals := (finite_vals t \<and> (\<forall>i<nrows t. \<forall>j<ncols t. in_range (entry t i j + c)))\<rparr>"

definition div_scalar :: "tensor \<Rightarrow> real \<Rightarrow> tensor" where
  "div_scalar t c =
     t\<lparr>entry := (\<lambda>i j. entry t i j / c),
       finite_vals := (finite_vals t \<and>
          (\<forall>i<nrows t. \<forall>j<ncols t. c \<noteq> 0 \<and> in_range (entry t i j / c)))\<rparr>"

definition tf_sqrt :: "tensor \<Rightarrow> tensor" where
  "tf_sqrt t =
     t\<lparr>entry := (\<lambda>i j. sqrt (entry t i j)),
       finite_vals := (finite_vals t \<and> (\<forall>i<nrows t. \<forall>j<ncols t. 0 \<le> entry t i j))\<rparr>"

text \<open>\<^verbatim>\<open>tf.nn.softmax(t, axis=1)\<close>: \<^verbatim>\<open>exp(t) / reduce_sum(exp(t), axis)\<close>. TensorFlow subtracts the
  maximum of the row before it exponentiates, so that nothing overflows: the softmax of
  finite entries is finite. A row that holds inf or NaN gives NaN.\<close>

definition softmax :: "tensor \<Rightarrow> tensor" where
  "softmax t = t\<lparr>entry := (\<lambda>i j. exp (entry t i j) / (\<Sum>l<ncols t. exp (entry t i l)))\<rparr>"

text \<open>\<^verbatim>\<open>tf.linalg.normalize(t, ord=2, axis=-1)\<close>, first component: every row divided by its
  Euclidean norm, the square root of the sum of the squares of its entries. The smallest
  positive float32 is \<open>2 ^ -149\<close>: a square of at most \<open>2 ^ -150\<close> rounds to zero. A row all of
  whose squares round to zero has norm zero and is divided by zero, which leaves inf or NaN in
  it, also when the row is not a row of zeros; so does a row whose sum of squares overflows.\<close>

definition linalg_normalize :: "tensor \<Rightarrow> tensor" where
  "linalg_normalize t =
     t\<lparr>entry := (\<lambda>i k. entry t i k / sqrt (\<Sum>l<ncols t. (entry t i l)\<^sup>2)),
       finite_vals := (finite_vals t \<and>
          (ncols t = 0 \<or>
           (\<forall>i<nrows t. (\<exists>l<ncols t. 1 / 2 ^ 150 < (entry t i l)\<^sup>2)
                        \<and> in_range (\<Sum>l<ncols t. (entry t i l)\<^sup>2))))\<rparr>"

text \<open>\<^verbatim>\<open>tf.keras.losses.sparse_categorical_crossentropy(labels, logits, from_logits=True)\<close>:
  for row \<open>i\<close>, minus the log-softmax of the row at \<open>labels[i]\<close>, which is
  \<^verbatim>\<open>log(reduce_sum(exp(row))) - row[labels[i]]\<close>. The result has rank 1. Logits without a column
  are refused with \<^verbatim>\<open>InvalidArgumentError\<close> (there must be at least one class). The call in the
  cell always has one label per row and labels below the number of columns; outside of that
  TensorFlow raises or returns NaN (it depends on the device), which is \<open>None\<close> here.\<close>

definition sparse_categorical_crossentropy ::
  "nat list \<Rightarrow> tensor \<Rightarrow> error + real list option" where
  "sparse_categorical_crossentropy labels logits =
     (if ncols logits = 0 then Inl (InvalidArgumentError ''Must have at least one class'')
      else Inr
       (if finite_vals logits \<and> length labels = nrows logits \<and> (\<forall>y\<in>set labels. y < ncols logits)
           \<and> (\<forall>i<nrows logits.
                 in_range (ln (\<Sum>j<ncols logits. exp (entry logits i j)) - entry logits i (labels ! i)))
        then Some (map (\<lambda>i. ln (\<Sum>j<ncols logits. exp (entry logits i j)) - entry logits i (labels ! i))
                       [0..<nrows logits])
        else None))"

text \<open>\<^verbatim>\<open>tf.reduce_mean\<close> of a rank-1 tensor; the mean of no element is NaN.\<close>

definition reduce_mean :: "real list option \<Rightarrow> real option" where
  "reduce_mean v =
     (case v of None \<Rightarrow> None
      | Some xs \<Rightarrow> if xs = [] \<or> \<not> in_range (sum_list xs) then None
                   else Some (sum_list xs / real (length xs)))"

subsection \<open>The functions of the cell\<close>

definition pairwise_l2_distance :: "tensor \<Rightarrow> tensor \<Rightarrow> tensor" where
  "pairwise_l2_distance embs1 embs2 =
     (let norm1 = (\<lambda>i. \<Sum>k<ncols embs1. (entry embs1 i k)\<^sup>2);
          norm2 = (\<lambda>j. \<Sum>k<ncols embs2. (entry embs2 j k)\<^sup>2);
          prod = matmul embs1 embs2 True
      in prod\<lparr>entry := (\<lambda>i j. max (norm1 i + norm2 j - 2 * entry prod i j) 0),
              finite_vals := (finite_vals prod
                \<and> (\<forall>i<nrows embs1. in_range (norm1 i)) \<and> (\<forall>j<nrows embs2. in_range (norm2 j))
                \<and> (\<forall>i<nrows embs1. \<forall>j<nrows embs2.
                      in_range (2 * entry prod i j) \<and> in_range (norm1 i + norm2 j)
                      \<and> in_range (norm1 i + norm2 j - 2 * entry prod i j)))\<rparr>)"

definition pairwise_l1_distance :: "tensor \<Rightarrow> tensor \<Rightarrow> tensor" where
  "pairwise_l1_distance embs1 embs2 =
     (let ss2 = nrows embs2
      in \<lparr>nrows = nrows embs1, ncols = ss2,
          entry = (\<lambda>i j. \<Sum>k<ncols embs1. \<bar>entry embs1 i k - entry embs2 j k\<bar>),
          finite_vals = (finite_vals embs1 \<and> finite_vals embs2 \<and>
             (\<forall>i<nrows embs1. \<forall>j<ss2.
                in_range (\<Sum>k<ncols embs1. \<bar>entry embs1 i k - entry embs2 j k\<bar>)))\<rparr>)"

text \<open>\<^verbatim>\<open>tf.reduce_max\<close> over an axis of length 0 is \<^verbatim>\<open>-inf\<close>.\<close>

definition pairwise_linf_distance :: "tensor \<Rightarrow> tensor \<Rightarrow> tensor" where
  "pairwise_linf_distance embs1 embs2 =
     (let ss2 = nrows embs2
      in \<lparr>nrows = nrows embs1, ncols = ss2,
          entry = (\<lambda>i j. Max ((\<lambda>k. \<bar>entry embs1 i k - entry embs2 j k\<bar>) ` {..<ncols embs1})),
          finite_vals = (finite_vals embs1 \<and> finite_vals embs2 \<and>
             (0 < ncols embs1 \<or> nrows embs1 = 0 \<or> ss2 = 0) \<and>
             (\<forall>i<nrows embs1. \<forall>j<ss2. \<forall>k<ncols embs1.
                in_range (entry embs1 i k - entry embs2 j k)))\<rparr>)"

definition get_scaled_similarity ::
  "globals \<Rightarrow> tensor \<Rightarrow> tensor \<Rightarrow> string \<Rightarrow> real \<Rightarrow> error + tensor" where
  "get_scaled_similarity G embs1 embs2 similarity_type temperature =
     (case
        (if similarity_type = ''l2sq'' then
           Inr (scalar_mul (- 1) (pairwise_l2_distance embs1 embs2))
         else if similarity_type = ''l2'' then
           (case G ''eps'' of
              None \<Rightarrow> Inl (NameError ''eps'')
            | Some eps \<Rightarrow>
                Inr (scalar_mul (- 1) (tf_sqrt (add_scalar (pairwise_l2_distance embs1 embs2) eps))))
         else if similarity_type = ''l1'' then
           Inr (scalar_mul (- 1) (pairwise_l1_distance embs1 embs2))
         else if similarity_type = ''linf'' then
           Inr (scalar_mul (- 1) (pairwise_linf_distance embs1 embs2))
         else if similarity_type = ''cosine'' then
           Inr (matmul (linalg_normalize embs1) (linalg_normalize embs2) True)
         else Inl (ValueError (''Unknown similarity type: '' @ similarity_type)))
      of Inl e \<Rightarrow> Inl e
       | Inr similarity \<Rightarrow> Inr (div_scalar similarity temperature))"

definition align_pair_of_sequences ::
  "globals \<Rightarrow> tensor \<Rightarrow> tensor \<Rightarrow> string \<Rightarrow> real \<Rightarrow> error + real option" where
  "align_pair_of_sequences G embs1 embs2 similarity_type temperature =
     (let ss1 = nrows embs1
      in case get_scaled_similarity G embs1 embs2 similarity_type temperature of
           Inl e \<Rightarrow> Inl e
         | Inr sim_12 \<Rightarrow>
             (let softmaxed_sim_12 = softmax sim_12;
                  nn_embs = matmul softmaxed_sim_12 embs2 False
              in case get_scaled_similarity G nn_embs embs1 similarity_type temperature of
                   Inl e \<Rightarrow> Inl e
                 | Inr sim_21 \<Rightarrow>
                     (case sparse_categorical_crossentropy [0..<ss1] sim_21 of
                        Inl e \<Rightarrow> Inl e
                      | Inr loss \<Rightarrow> Inr (reduce_mean loss))))"

text \<open>The metric names that \<^verbatim>\<open>get_scaled_similarity\<close> has a branch for.\<close>

definition supported :: "string set" where
  "supported = {''l2sq'', ''l2'', ''l1'', ''linf'', ''cosine''}"


section \<open>Basic facts\<close>

text \<open>The branch of \<^verbatim>\<open>get_scaled_similarity\<close> that each metric name takes.\<close>

lemmas op_defs = matmul_def scalar_mul_def add_scalar_def div_scalar_def tf_sqrt_def
  softmax_def linalg_normalize_def pairwise_l2_distance_def pairwise_l1_distance_def
  pairwise_linf_distance_def

lemma gss_l2sq: "get_scaled_similarity G a b ''l2sq'' t
    = Inr (div_scalar (scalar_mul (- 1) (pairwise_l2_distance a b)) t)"
  by (simp add: get_scaled_similarity_def)

lemma gss_l2: "get_scaled_similarity G a b ''l2'' t
    = (case G ''eps'' of None \<Rightarrow> Inl (NameError ''eps'')
       | Some eps \<Rightarrow> Inr (div_scalar (scalar_mul (- 1) (tf_sqrt (add_scalar (pairwise_l2_distance a b) eps))) t))"
  by (simp add: get_scaled_similarity_def split: option.split)

lemma gss_l1: "get_scaled_similarity G a b ''l1'' t
    = Inr (div_scalar (scalar_mul (- 1) (pairwise_l1_distance a b)) t)"
  by (simp add: get_scaled_similarity_def)

lemma gss_linf: "get_scaled_similarity G a b ''linf'' t
    = Inr (div_scalar (scalar_mul (- 1) (pairwise_linf_distance a b)) t)"
  by (simp add: get_scaled_similarity_def)


lemma supported_cases:
  assumes "s \<in> supported"
  obtains "s = ''l2sq''" | "s = ''l2''" | "s = ''l1''" | "s = ''linf''" | "s = ''cosine''"
  using assms unfolding supported_def by blast

lemma notebook_eps: "notebook_globals ''eps'' = None"
  by (simp add: notebook_globals_def)

lemma pairwise_l2_distance_nonneg: "0 \<le> entry (pairwise_l2_distance embs1 embs2) i j"
  by (simp add: pairwise_l2_distance_def Let_def)

lemma max_float32_pos: "1 \<le> max_float32"
  by (simp add: max_float32_def)

lemma in_range_0 [simp]: "in_range 0"
  using max_float32_pos by (simp add: in_range_def)

lemma in_range_minus [simp]: "in_range (- x) = in_range x"
  by (simp add: in_range_def)


lemma l2_path_with_eps:
  assumes "G ''eps'' = Some eps" and "0 < eps"
  shows "\<exists>S. get_scaled_similarity G embs1 embs2 ''l2'' temperature = Inr S
     \<and> (\<forall>i j. 0 < entry (add_scalar (pairwise_l2_distance embs1 embs2) eps) i j)"
proof -
  have "0 < entry (add_scalar (pairwise_l2_distance embs1 embs2) eps) i j" for i j
    using pairwise_l2_distance_nonneg [of embs1 embs2 i j] assms(2)
    by (simp add: add_scalar_def)
  then show ?thesis
    using assms(1) by (simp add: gss_l2)
qed













section \<open>Unknown metric names\<close>

text \<open>
  C4. For a metric name outside the five that the code knows, the similarity computation raises
  the \<^verbatim>\<open>ValueError\<close> whose message ends with that name, whatever the embeddings, the
  temperature and the globals; the loss computation raises the same error at its first
  similarity call, so that neither returns a number.
\<close>

theorem unknown_metric_raises:
  assumes "similarity_type \<notin> supported"
  shows "get_scaled_similarity G embs1 embs2 similarity_type temperature
           = Inl (ValueError (''Unknown similarity type: '' @ similarity_type))
       \<and> align_pair_of_sequences G embs1 embs2 similarity_type temperature
           = Inl (ValueError (''Unknown similarity type: '' @ similarity_type))"
  using assms
  by (simp add: supported_def get_scaled_similarity_def align_pair_of_sequences_def)

theorem unknown_metric_raises_witness:
  "''manhattan-typo'' \<notin> supported
   \<and> get_scaled_similarity notebook_globals
        \<lparr>nrows = 1, ncols = 1, entry = (\<lambda>i j. 0), finite_vals = True\<rparr>
        \<lparr>nrows = 1, ncols = 1, entry = (\<lambda>i j. 1), finite_vals = True\<rparr> ''manhattan-typo'' 1
       = Inl (ValueError ''Unknown similarity type: manhattan-typo'')"
proof -
  have h: "''manhattan-typo'' \<notin> supported"
    by (simp add: supported_def)
  show ?thesis
    using h unknown_metric_raises [OF h, of notebook_globals
        "\<lparr>nrows = 1, ncols = 1, entry = (\<lambda>i j. 0), finite_vals = True\<rparr>"
        "\<lparr>nrows = 1, ncols = 1, entry = (\<lambda>i j. 1), finite_vals = True\<rparr>" 1]
    by simp
qed

section \<open>The Euclidean path\<close>

text \<open>
  C3. The clamp is there: \<open>pairwise_l2_distance_nonneg\<close>. With \<^verbatim>\<open>eps\<close> bound to a positive
  number the \<^verbatim>\<open>'l2'\<close> path returns and the argument of its square root is positive:
  \<open>l2_path_with_eps\<close>. The notebook binds no \<^verbatim>\<open>eps\<close>: with the notebook's globals the
  \<^verbatim>\<open>'l2'\<close> path raises \<^verbatim>\<open>NameError\<close> for every pair of embeddings and every temperature, after the
  distance matrix is computed and before the square root is taken.
\<close>

theorem l2_path_raises_NameError:
  "get_scaled_similarity notebook_globals embs1 embs2 ''l2'' temperature = Inl (NameError ''eps'')"
  by (simp add: gss_l2 notebook_eps)

theorem l2_path_raises_NameError_witness:
  "get_scaled_similarity notebook_globals
      \<lparr>nrows = 1, ncols = 1, entry = (\<lambda>i j. 0), finite_vals = True\<rparr>
      \<lparr>nrows = 1, ncols = 1, entry = (\<lambda>i j. 1), finite_vals = True\<rparr> ''l2'' 1
    = Inl (NameError ''eps'')"
  using l2_path_raises_NameError [of "\<lparr>nrows = 1, ncols = 1, entry = (\<lambda>i j. 0), finite_vals = True\<rparr>"
      "\<lparr>nrows = 1, ncols = 1, entry = (\<lambda>i j. 1), finite_vals = True\<rparr>" 1]
  by simp

text \<open>
  C6. With the notebook's globals the similarity computation returns no matrix for the
  supported metric \<^verbatim>\<open>'l2'\<close>, of any shape. (For the four other metrics, and for \<^verbatim>\<open>'l2'\<close> once
  \<^verbatim>\<open>eps\<close> is bound, it returns a matrix with as many rows as the first argument and as many
  columns as the second has rows: \<open>get_scaled_similarity_shape\<close>.)
\<close>

theorem l2_similarity_returns_no_matrix:
  "get_scaled_similarity notebook_globals embs1 embs2 ''l2'' temperature \<noteq> Inr S"
  by (simp add: gss_l2 notebook_eps)

theorem l2_similarity_returns_no_matrix_witness:
  "''l2'' \<in> supported \<and>
   get_scaled_similarity notebook_globals
      \<lparr>nrows = 2, ncols = 1, entry = (\<lambda>i j. 0), finite_vals = True\<rparr>
      \<lparr>nrows = 3, ncols = 1, entry = (\<lambda>i j. 1), finite_vals = True\<rparr> ''l2'' 1
    \<noteq> Inr \<lparr>nrows = 2, ncols = 3, entry = (\<lambda>i j. - 1), finite_vals = True\<rparr>"
  using l2_similarity_returns_no_matrix [of "\<lparr>nrows = 2, ncols = 1, entry = (\<lambda>i j. 0), finite_vals = True\<rparr>"
      "\<lparr>nrows = 3, ncols = 1, entry = (\<lambda>i j. 1), finite_vals = True\<rparr>" 1
      "\<lparr>nrows = 2, ncols = 3, entry = (\<lambda>i j. - 1), finite_vals = True\<rparr>"]
  by (simp add: supported_def)

text \<open>
  C1. With the notebook's globals the loss computation returns no number for the supported
  metric \<^verbatim>\<open>'l2'\<close>: its first similarity call raises \<^verbatim>\<open>NameError\<close>, for every pair of embeddings
  and every temperature, where the computation that the specification describes (a Euclidean
  similarity with a small positive epsilon, a softmax, the soft neighbours, a second
  similarity, the mean cross-entropy) gives a loss.
\<close>

theorem loss_with_l2_raises_NameError:
  "align_pair_of_sequences notebook_globals embs1 embs2 ''l2'' temperature = Inl (NameError ''eps'')"
  by (simp add: align_pair_of_sequences_def gss_l2 notebook_eps)

theorem loss_with_l2_raises_NameError_witness:
  "''l2'' \<in> supported \<and>
   align_pair_of_sequences notebook_globals
      \<lparr>nrows = 2, ncols = 2, entry = (\<lambda>i k. 10 * real i), finite_vals = True\<rparr>
      \<lparr>nrows = 2, ncols = 2, entry = (\<lambda>i k. 10 * real i), finite_vals = True\<rparr> ''l2'' 1
    = Inl (NameError ''eps'')"
  using loss_with_l2_raises_NameError
    [of "\<lparr>nrows = 2, ncols = 2, entry = (\<lambda>i k. 10 * real i), finite_vals = True\<rparr>"
        "\<lparr>nrows = 2, ncols = 2, entry = (\<lambda>i k. 10 * real i), finite_vals = True\<rparr>" 1]
  by (simp add: supported_def)

section \<open>The temperature\<close>

text \<open>
  C2, as stated, fails: with the squared Euclidean metric and temperature \<open>-1\<close> the similarity
  between the \<open>1\<times>1\<close> embeddings \<open>[[0]]\<close> and \<open>[[1]]\<close> is the matrix \<open>[[1]]\<close>, not an error.
\<close>

theorem negative_temperature_returns:
  "get_scaled_similarity notebook_globals
        \<lparr>nrows = 1, ncols = 1, entry = (\<lambda>i j. 0), finite_vals = True\<rparr>
        \<lparr>nrows = 1, ncols = 1, entry = (\<lambda>i j. 1), finite_vals = True\<rparr> ''l2sq'' (- 1)
    = Inr \<lparr>nrows = 1, ncols = 1, entry = (\<lambda>i j. 1), finite_vals = True\<rparr>"
  by (simp add: gss_l2sq op_defs Let_def dot_in_range_def in_range_def max_float32_def)

text \<open>
  C2, amended. The temperature is never validated. For every supported metric other than
  cosine (for \<^verbatim>\<open>'l2'\<close>, once \<^verbatim>\<open>eps\<close> is bound) a call with a temperature that is zero or
  negative raises nothing and returns a matrix \<open>S\<close> of the usual shape, whose entries are the
  entries of the distance matrix \<open>D\<close> of the metric, negated and divided by the temperature.
  With a negative temperature the order is reversed: a larger distance has the larger
  similarity. With temperature zero and a matrix that has an entry, the division leaves inf
  or NaN in it.
\<close>

theorem temperature_not_validated:
  assumes "similarity_type \<in> supported" and "similarity_type \<noteq> ''cosine''"
    and "similarity_type = ''l2'' \<longrightarrow> G ''eps'' \<noteq> None"
    and "temperature \<le> 0"
  shows "\<exists>S D. get_scaled_similarity G embs1 embs2 similarity_type temperature = Inr S
     \<and> nrows S = nrows embs1 \<and> ncols S = nrows embs2
     \<and> (similarity_type = ''l2sq'' \<longrightarrow> D = pairwise_l2_distance embs1 embs2)
     \<and> (similarity_type = ''l2'' \<longrightarrow>
          (\<forall>eps. G ''eps'' = Some eps \<longrightarrow>
             D = tf_sqrt (add_scalar (pairwise_l2_distance embs1 embs2) eps)))
     \<and> (similarity_type = ''l1'' \<longrightarrow> D = pairwise_l1_distance embs1 embs2)
     \<and> (similarity_type = ''linf'' \<longrightarrow> D = pairwise_linf_distance embs1 embs2)
     \<and> (\<forall>i j. entry S i j = - entry D i j / temperature)
     \<and> (temperature < 0 \<longrightarrow>
          (\<forall>i j i' j'. entry D i j \<le> entry D i' j' \<longrightarrow> entry S i j \<le> entry S i' j'))
     \<and> (temperature = 0 \<and> 0 < nrows embs1 \<and> 0 < nrows embs2 \<longrightarrow> \<not> finite_vals S)"
proof -
  have main: "\<exists>S. get_scaled_similarity G embs1 embs2 similarity_type temperature = Inr S
     \<and> nrows S = nrows embs1 \<and> ncols S = nrows embs2
     \<and> (\<forall>i j. entry S i j = - entry D i j / temperature)
     \<and> (temperature < 0 \<longrightarrow>
          (\<forall>i j i' j'. entry D i j \<le> entry D i' j' \<longrightarrow> entry S i j \<le> entry S i' j'))
     \<and> (temperature = 0 \<and> 0 < nrows embs1 \<and> 0 < nrows embs2 \<longrightarrow> \<not> finite_vals S)"
    if gss: "get_scaled_similarity G embs1 embs2 similarity_type temperature
               = Inr (div_scalar (scalar_mul (- 1) D) temperature)"
      and shape: "nrows D = nrows embs1" "ncols D = nrows embs2"
    for D
  proof -
    let ?S = "div_scalar (scalar_mul (- 1) D) temperature"
    have e: "entry ?S i j = - entry D i j / temperature" for i j
      by (simp add: div_scalar_def scalar_mul_def)
    have "entry ?S i j \<le> entry ?S i' j'"
      if "temperature < 0" "entry D i j \<le> entry D i' j'" for i j i' j'
      using that by (simp add: e divide_le_cancel)
    moreover have "\<not> finite_vals ?S" if "temperature = 0 \<and> 0 < nrows embs1 \<and> 0 < nrows embs2"
      using that shape by (auto simp: div_scalar_def scalar_mul_def)
    moreover have "nrows ?S = nrows embs1" "ncols ?S = nrows embs2"
      using shape by (simp_all add: div_scalar_def scalar_mul_def)
    ultimately show ?thesis
      using gss e by blast
  qed
  from assms(1) show ?thesis
  proof (cases similarity_type rule: supported_cases)
    case 1
    have "\<exists>S. get_scaled_similarity G embs1 embs2 similarity_type temperature = Inr S
     \<and> nrows S = nrows embs1 \<and> ncols S = nrows embs2
     \<and> (\<forall>i j. entry S i j = - entry (pairwise_l2_distance embs1 embs2) i j / temperature)
     \<and> (temperature < 0 \<longrightarrow>
          (\<forall>i j i' j'. entry (pairwise_l2_distance embs1 embs2) i j
                \<le> entry (pairwise_l2_distance embs1 embs2) i' j' \<longrightarrow> entry S i j \<le> entry S i' j'))
     \<and> (temperature = 0 \<and> 0 < nrows embs1 \<and> 0 < nrows embs2 \<longrightarrow> \<not> finite_vals S)"
      using 1 by (intro main) (simp_all add: gss_l2sq pairwise_l2_distance_def matmul_def Let_def)
    then show ?thesis using 1 by auto
  next
    case 2
    then obtain eps where eps: "G ''eps'' = Some eps" using assms(3) by auto
    let ?D = "tf_sqrt (add_scalar (pairwise_l2_distance embs1 embs2) eps)"
    have "\<exists>S. get_scaled_similarity G embs1 embs2 similarity_type temperature = Inr S
     \<and> nrows S = nrows embs1 \<and> ncols S = nrows embs2
     \<and> (\<forall>i j. entry S i j = - entry ?D i j / temperature)
     \<and> (temperature < 0 \<longrightarrow>
          (\<forall>i j i' j'. entry ?D i j \<le> entry ?D i' j' \<longrightarrow> entry S i j \<le> entry S i' j'))
     \<and> (temperature = 0 \<and> 0 < nrows embs1 \<and> 0 < nrows embs2 \<longrightarrow> \<not> finite_vals S)"
      using 2 eps
      by (intro main)
        (simp_all add: gss_l2 tf_sqrt_def add_scalar_def pairwise_l2_distance_def matmul_def Let_def)
    then show ?thesis using 2 eps by auto
  next
    case 3
    have "\<exists>S. get_scaled_similarity G embs1 embs2 similarity_type temperature = Inr S
     \<and> nrows S = nrows embs1 \<and> ncols S = nrows embs2
     \<and> (\<forall>i j. entry S i j = - entry (pairwise_l1_distance embs1 embs2) i j / temperature)
     \<and> (temperature < 0 \<longrightarrow>
          (\<forall>i j i' j'. entry (pairwise_l1_distance embs1 embs2) i j
                \<le> entry (pairwise_l1_distance embs1 embs2) i' j' \<longrightarrow> entry S i j \<le> entry S i' j'))
     \<and> (temperature = 0 \<and> 0 < nrows embs1 \<and> 0 < nrows embs2 \<longrightarrow> \<not> finite_vals S)"
      using 3 by (intro main) (simp_all add: gss_l1 pairwise_l1_distance_def Let_def)
    then show ?thesis using 3 by auto
  next
    case 4
    have "\<exists>S. get_scaled_similarity G embs1 embs2 similarity_type temperature = Inr S
     \<and> nrows S = nrows embs1 \<and> ncols S = nrows embs2
     \<and> (\<forall>i j. entry S i j = - entry (pairwise_linf_distance embs1 embs2) i j / temperature)
     \<and> (temperature < 0 \<longrightarrow>
          (\<forall>i j i' j'. entry (pairwise_linf_distance embs1 embs2) i j
                \<le> entry (pairwise_linf_distance embs1 embs2) i' j' \<longrightarrow> entry S i j \<le> entry S i' j'))
     \<and> (temperature = 0 \<and> 0 < nrows embs1 \<and> 0 < nrows embs2 \<longrightarrow> \<not> finite_vals S)"
      using 4 by (intro main) (simp_all add: gss_linf pairwise_linf_distance_def Let_def)
    then show ?thesis using 4 by auto
  next
    case 5
    then show ?thesis using assms(2) by simp
  qed
qed

theorem temperature_not_validated_witness:
  "\<exists>S. get_scaled_similarity notebook_globals
        \<lparr>nrows = 1, ncols = 1, entry = (\<lambda>i j. 0), finite_vals = True\<rparr>
        \<lparr>nrows = 1, ncols = 1, entry = (\<lambda>i j. 1), finite_vals = True\<rparr> ''l1'' (- 2) = Inr S
       \<and> nrows S = 1 \<and> ncols S = 1 \<and> entry S 0 0 = 1 / 2"
proof -
  let ?a = "\<lparr>nrows = 1, ncols = 1, entry = (\<lambda>i j. 0::real), finite_vals = True\<rparr>"
  let ?b = "\<lparr>nrows = 1, ncols = 1, entry = (\<lambda>i j. 1::real), finite_vals = True\<rparr>"
  have a: "''l1'' \<in> supported" by (simp add: supported_def)
  have b: "''l1'' \<noteq> ''cosine''" by simp
  have c: "''l1'' = ''l2'' \<longrightarrow> notebook_globals ''eps'' \<noteq> None" by simp
  have d: "(- 2::real) \<le> 0" by simp
  from temperature_not_validated [of "''l1''" notebook_globals "- 2" ?a ?b] a b c d
  obtain S D where S: "get_scaled_similarity notebook_globals ?a ?b ''l1'' (- 2) = Inr S"
      "nrows S = 1" "ncols S = 1" "D = pairwise_l1_distance ?a ?b"
      "\<forall>i j. entry S i j = - entry D i j / (- 2)"
    by auto
  have "entry (pairwise_l1_distance ?a ?b) 0 0 = 1"
    by (simp add: pairwise_l1_distance_def)
  then have "entry S 0 0 = 1 / 2"
    using S(4,5) by simp
  with S(1,2,3) show ?thesis by blast
qed

section \<open>Symmetry of the distances\<close>

text \<open>
  C8. The distance matrix of an embedding with itself is symmetric, for the squared Euclidean
  distance (which is also what the Euclidean path takes the square root of), for the
  Manhattan distance and for the Chebyshev distance: the entry at \<open>(i, j)\<close> is the entry at
  \<open>(j, i)\<close>.
\<close>

theorem pairwise_distance_symmetric:
  "entry (pairwise_l2_distance A A) i j = entry (pairwise_l2_distance A A) j i
   \<and> entry (pairwise_l1_distance A A) i j = entry (pairwise_l1_distance A A) j i
   \<and> entry (pairwise_linf_distance A A) i j = entry (pairwise_linf_distance A A) j i"
  by (simp add: op_defs Let_def mult.commute abs_minus_commute)

theorem pairwise_distance_symmetric_witness:
  "entry (pairwise_l1_distance \<lparr>nrows = 2, ncols = 1, entry = (\<lambda>i k. real i), finite_vals = True\<rparr>
            \<lparr>nrows = 2, ncols = 1, entry = (\<lambda>i k. real i), finite_vals = True\<rparr>) 0 1
   = entry (pairwise_l1_distance \<lparr>nrows = 2, ncols = 1, entry = (\<lambda>i k. real i), finite_vals = True\<rparr>
            \<lparr>nrows = 2, ncols = 1, entry = (\<lambda>i k. real i), finite_vals = True\<rparr>) 1 0"
  using pairwise_distance_symmetric
    [of "\<lparr>nrows = 2, ncols = 1, entry = (\<lambda>i k. real i), finite_vals = True\<rparr>" 0 1]
  by simp

section \<open>Cosine similarity of an embedding with itself\<close>




section \<open>The soft assignment\<close>




section \<open>The loss of an embedding against itself\<close>




end
